theory Spec2Isabelle
  imports Main "HOL-Library.Sublist"
begin

section \<open>Data model (models/ChatModel.ts)\<close>

text \<open>
  JavaScript strings are modelled as \<^typ>\<open>string\<close>. The code only tests strings for
  emptiness and for the ASCII prefix \<^verbatim>\<open>claude\<close>, concatenates them and copies them; all of
  that is the same on UTF-16 code units and on the bytes of the UTF-8 encoding.
\<close>

text \<open>\<^verbatim>\<open>role: 'user' | 'assistant'\<close>, with the string each literal type stands for.\<close>

datatype Role = User | Assistant

fun role_str :: "Role \<Rightarrow> string" where
  "role_str User = ''user''"
| "role_str Assistant = ''assistant''"

record Message =
  role :: Role
  content :: string

text \<open>\<^verbatim>\<open>interface AiModel { id: string; name: string }\<close>; the field \<^verbatim>\<open>id\<close> is renamed,
  \<open>id\<close> being the identity function of HOL.\<close>

record AiModel =
  id_AiModel :: string
  name_AiModel :: string

text \<open>What a rejected promise or a thrown exception carries.\<close>

datatype error =
  ReferenceError \<comment> \<open>an unbound identifier is evaluated\<close>
| SyntaxError    \<comment> \<open>\<^verbatim>\<open>req.json()\<close> on a body that is not JSON\<close>
| TypeError      \<comment> \<open>property read on \<^verbatim>\<open>undefined\<close>/\<^verbatim>\<open>null\<close>, call of a non-function\<close>
| FetchError     \<comment> \<open>the upstream call's promise rejects: the connection failed\<close>

text \<open>The \<^verbatim>\<open>Configuration\<close> of openai-edge holds the key it was given, which may be
  \<^verbatim>\<open>undefined\<close>.\<close>

record Configuration =
  apiKey :: "string option"

record ChatModel =
  openai :: Configuration
  anthropicApiKey :: string

text \<open>\<^verbatim>\<open>process.env\<close>: a variable is a string or is not set. The constructor reads
  \<^verbatim>\<open>OPEN_API_KEY\<close> and \<^verbatim>\<open>ANTHROPIC_API_KEY\<close> (the copy of the class in the setup guide
  reads \<^verbatim>\<open>OPENAI_API_KEY\<close> for the first).\<close>

type_synonym process_env = "string \<rightharpoonup> string"

text \<open>\<^verbatim>\<open>a || ''\<close> on a string that may be undefined: the empty string is falsy too.\<close>

definition or_empty :: "string option \<Rightarrow> string" where
  "or_empty v = (case v of None \<Rightarrow> '''' | Some s \<Rightarrow> (if s = '''' then '''' else s))"

definition ChatModel_constructor :: "process_env \<Rightarrow> ChatModel" where
  "ChatModel_constructor env =
     \<lparr> openai = \<lparr> apiKey = env ''OPEN_API_KEY'' \<rparr>,
       anthropicApiKey = or_empty (env ''ANTHROPIC_API_KEY'') \<rparr>"

section \<open>The model catalog\<close>

text \<open>\<^verbatim>\<open>getAvailableModels()\<close> is a method: it receives the instance and does not read it.\<close>

definition getAvailableModels :: "ChatModel \<Rightarrow> AiModel list" where
  "getAvailableModels this =
     [ \<lparr> id_AiModel = ''gpt-3.5-turbo'', name_AiModel = ''GPT 3.5 Turbo'' \<rparr>,
       \<lparr> id_AiModel = ''gpt-4'', name_AiModel = ''GPT-4'' \<rparr>,
       \<lparr> id_AiModel = ''claude-v1'', name_AiModel = ''Claude v1'' \<rparr>,
       \<lparr> id_AiModel = ''claude-instant-v1'', name_AiModel = ''Claude Instant v1'' \<rparr>,
       \<lparr> id_AiModel = ''text-davinci-003'', name_AiModel = ''Davinci'' \<rparr>,
       \<lparr> id_AiModel = ''text-curie-001'', name_AiModel = ''Curie'' \<rparr> ]"

text \<open>controllers/ChatControllers.ts: the controller owns one \<^verbatim>\<open>ChatModel\<close> (the private
  field \<^verbatim>\<open>model\<close>) and forwards to it.\<close>

record ChatController =
  cc_model :: ChatModel

definition ChatController_constructor :: "process_env \<Rightarrow> ChatController" where
  "ChatController_constructor env = \<lparr> cc_model = ChatModel_constructor env \<rparr>"

definition ChatController_getAvailableModels :: "ChatController \<Rightarrow> AiModel list" where
  "ChatController_getAvailableModels this = getAvailableModels (cc_model this)"

text \<open>
  components/AIChatbot.tsx, lines 10 to 13:
  \<^verbatim>\<open>const aiModel = controller.getAvailableModels()\<close> and
  \<^verbatim>\<open>useState(aiModel[0].id)\<close>. Reading index 0 of an empty array gives \<^verbatim>\<open>undefined\<close>, and
  \<^verbatim>\<open>.id\<close> on it throws a TypeError.
\<close>

definition AIChatbot_aiModel :: "process_env \<Rightarrow> AiModel list" where
  "AIChatbot_aiModel env = ChatController_getAvailableModels (ChatController_constructor env)"

definition js_index :: "'a list \<Rightarrow> nat \<Rightarrow> 'a option" where
  "js_index xs i = (if i < length xs then Some (xs ! i) else None)"

definition AIChatbot_defaultModel :: "process_env \<Rightarrow> AiModel option" where
  "AIChatbot_defaultModel env = js_index (AIChatbot_aiModel env) 0"

definition AIChatbot_initial_selectedModel :: "process_env \<Rightarrow> error + string" where
  "AIChatbot_initial_selectedModel env =
     (case AIChatbot_defaultModel env of
        None \<Rightarrow> Inl TypeError
      | Some m \<Rightarrow> Inr (id_AiModel m))"

section \<open>Template literals\<close>

text \<open>
  The prompt line of the provider-B branch is written as a template literal. Its meaning is
  computed from the characters between the backticks, by the rules of the language for the
  constructs that occur: a backslash escapes the character after it (\<^verbatim>\<open>\n\<close> is a line
  feed, and \<^verbatim>\<open>\$\<close> is a plain dollar sign, which opens no substitution), and an unescaped
  \<^verbatim>\<open>${\<close> opens a substitution that runs to the next closing brace.
\<close>

datatype template_part = Chars string | Subst string

definition backslash :: char where
  "backslash = CHR 0x5C"

definition newline :: char where
  "newline = CHR 0x0A"

definition unescape :: "char \<Rightarrow> char" where
  "unescape c = (if c = CHR ''n'' then newline else c)"

text \<open>After \<^verbatim>\<open>${\<close>: the text of the expression, and what follows the closing brace.\<close>

fun scan_subst :: "string \<Rightarrow> string \<times> string" where
  "scan_subst [] = ([], [])"
| "scan_subst (c # cs) =
     (if c = CHR ''}'' then ([], cs)
      else (case scan_subst cs of (e, rest) \<Rightarrow> (c # e, rest)))"

function cook_template :: "string \<Rightarrow> template_part list" where
  "cook_template [] = []"
| "cook_template [c] = [Chars [c]]"
| "cook_template (c # d # cs) =
     (if c = backslash then Chars [unescape d] # cook_template cs
      else if c = CHR ''$'' \<and> d = CHR ''{''
        then Subst (fst (scan_subst cs)) # cook_template (snd (scan_subst cs))
      else Chars [c] # cook_template (d # cs))"
  by pat_completeness auto
termination
proof (relation "measure length")
  fix c d :: char and cs :: string
  have "length (snd (scan_subst xs)) \<le> length xs" for xs
    by (induction xs) (auto split: prod.splits)
  then have "length (snd (scan_subst cs)) \<le> length cs" .
  then show "(snd (scan_subst cs), c # d # cs) \<in> measure length"
    by simp
qed auto

text \<open>Evaluating a cooked template: the substitutions are evaluated from left to right and
  the first exception ends the evaluation.\<close>

fun render :: "(string \<Rightarrow> error + string) \<Rightarrow> template_part list \<Rightarrow> error + string" where
  "render ev [] = Inr []"
| "render ev (Chars s # ps) =
     (case render ev ps of Inl e \<Rightarrow> Inl e | Inr r \<Rightarrow> Inr (s @ r))"
| "render ev (Subst x # ps) =
     (case ev x of
        Inl e \<Rightarrow> Inl e
      | Inr v \<Rightarrow> (case render ev ps of Inl e \<Rightarrow> Inl e | Inr r \<Rightarrow> Inr (v @ r)))"

text \<open>\<^verbatim>\<open>Array.prototype.map\<close> with a callback that may throw, and
  \<^verbatim>\<open>Array.prototype.join\<close> on strings.\<close>

fun js_map :: "('a \<Rightarrow> error + 'b) \<Rightarrow> 'a list \<Rightarrow> error + 'b list" where
  "js_map f [] = Inr []"
| "js_map f (x # xs) =
     (case f x of
        Inl e \<Rightarrow> Inl e
      | Inr y \<Rightarrow> (case js_map f xs of Inl e \<Rightarrow> Inl e | Inr ys \<Rightarrow> Inr (y # ys)))"

fun join :: "string \<Rightarrow> string list \<Rightarrow> string" where
  "join sep [] = []"
| "join sep [x] = x"
| "join sep (x # y # ys) = x @ sep @ join sep (y # ys)"

text \<open>The characters between the backticks at ChatModel.generateResponse, line 182 of the
  source (line 88 of the setup guide has the same):
  backslash, \<^verbatim>\<open>${m.role}: \<close>, backslash, \<^verbatim>\<open>${m.content}\<close>.\<close>

definition prompt_line_raw :: string where
  "prompt_line_raw = backslash # ''${m.role}: '' @ backslash # ''${m.content}''"

text \<open>The expressions a substitution of that template could hold, for the arrow function's
  parameter \<^verbatim>\<open>m: Message\<close>.\<close>

definition Message_expr :: "Message \<Rightarrow> string \<Rightarrow> error + string" where
  "Message_expr m x =
     (if x = ''m.role'' then Inr (role_str (role m))
      else if x = ''m.content'' then Inr (content m)
      else Inl ReferenceError)"

definition anthropic_prompt :: "Message list \<Rightarrow> error + string" where
  "anthropic_prompt messages =
     (case js_map (\<lambda>m. render (Message_expr m) (cook_template prompt_line_raw)) messages of
        Inl e \<Rightarrow> Inl e
      | Inr lines \<Rightarrow> Inr (join [newline] lines @ newline # ''assistant:''))"

section \<open>Upstream requests\<close>

text \<open>
  The object given to \<^verbatim>\<open>JSON.stringify\<close> for provider B is kept as a record: the
  serialisation itself is the platform's and adds nothing to it.
\<close>

record CompletionBody =
  cb_prompt :: string
  cb_model :: string
  cb_max_tokens_to_sample :: nat
  cb_stream :: bool

record RequestInit =
  ri_method :: string
  ri_headers :: "(string \<times> string) list"
  ri_body :: CompletionBody

text \<open>The argument of \<^verbatim>\<open>createChatCompletion\<close>; \<open>'m\<close> is the type of a wire message.\<close>

record 'm CreateChatCompletionRequest =
  ccr_model :: string
  ccr_stream :: bool
  ccr_messages :: "'m list"

text \<open>The two calls that leave the process: \<^verbatim>\<open>fetch(url, init)\<close>, and
  \<^verbatim>\<open>createChatCompletion(request)\<close> on the \<^verbatim>\<open>OpenAIApi\<close> built from a
  \<^verbatim>\<open>Configuration\<close>.\<close>

datatype 'm upstream_call =
  Fetch string RequestInit
| CreateChatCompletion Configuration "'m CreateChatCompletionRequest"

text \<open>What such a call resolves to: a response with its status and its body
  (\<^verbatim>\<open>ReadableStream | null\<close>; a stream is given by the bytes it delivers).\<close>

record Response =
  resp_status :: nat
  resp_body :: "string option"

text \<open>
  The world outside: for each call, either the promise rejects or it resolves to a
  response. \<^verbatim>\<open>fetch\<close> resolves for every HTTP status and rejects only when no response
  arrives; what openai-edge does is that library's, and is left open here.
\<close>

type_synonym 'm upstream = "'m upstream_call \<Rightarrow> error + Response"

text \<open>The result of a run: the upstream calls issued, in order, and what the caller gets,
  an exception or the value of \<^verbatim>\<open>response.body as ReadableStream\<close>.\<close>

type_synonym 'm run = "'m upstream_call list \<times> (error + string option)"

text \<open>\<^verbatim>\<open>const response = await call; return response.body as ReadableStream\<close>: the status
  of the response is not read, and the cast is erased at run time.\<close>

definition await_body :: "'m upstream \<Rightarrow> 'm upstream_call \<Rightarrow> 'm run" where
  "await_body upstream call =
     ([call], case upstream call of Inl e \<Rightarrow> Inl e | Inr response \<Rightarrow> Inr (resp_body response))"

definition claude_init :: "ChatModel \<Rightarrow> string \<Rightarrow> string \<Rightarrow> RequestInit" where
  "claude_init this p modelId =
     \<lparr> ri_method = ''POST'',
       ri_headers = [(''Content-Type'', ''application/json''),
                     (''X-API-Key'', anthropicApiKey this)],
       ri_body = \<lparr> cb_prompt = p, cb_model = modelId,
                   cb_max_tokens_to_sample = 1000, cb_stream = True \<rparr> \<rparr>"

section \<open>ChatModel.generateResponse, on the types of its signature\<close>

text \<open>\<^verbatim>\<open>model || 'gpt-3.5-turbo'\<close> on a string.\<close>

definition or_default :: "string \<Rightarrow> string" where
  "or_default modelId = (if modelId = '''' then ''gpt-3.5-turbo'' else modelId)"

definition generateResponse ::
  "Message upstream \<Rightarrow> ChatModel \<Rightarrow> Message list \<Rightarrow> string \<Rightarrow> Message run" where
  "generateResponse upstream this messages modelId =
     (if prefix ''claude'' modelId then
        (case anthropic_prompt messages of
           Inl e \<Rightarrow> ([], Inl e)
         | Inr p \<Rightarrow>
             await_body upstream
               (Fetch ''https://api.anthropic.com/v1/complete'' (claude_init this p modelId)))
      else
        await_body upstream
          (CreateChatCompletion (openai this)
             \<lparr> ccr_model = or_default modelId,
               ccr_stream = True,
               ccr_messages =
                 map (\<lambda>messages. \<lparr> role = role messages, content = content messages \<rparr>)
                   messages \<rparr>))"

definition ChatController_generateResponse ::
  "Message upstream \<Rightarrow> ChatController \<Rightarrow> Message list \<Rightarrow> string \<Rightarrow> Message run" where
  "ChatController_generateResponse upstream this messages selectedModel =
     generateResponse upstream (cc_model this) messages selectedModel"

section \<open>The same code on the values that arrive at run time\<close>

text \<open>
  The types of TypeScript are erased: the route handler passes whatever \<^verbatim>\<open>req.json()\<close>
  gave. A parsed JSON value is one of the following; a number is kept as the text that
  \<^verbatim>\<open>String(n)\<close> gives for it, since the code does no arithmetic on it. An object keeps
  its members in the order of the text, and a later member with the same key overrides an
  earlier one. A JavaScript value in these functions is a \<open>json option\<close>, where \<open>None\<close>
  is \<^verbatim>\<open>undefined\<close>.
\<close>

datatype json =
  JNull
| JBool bool
| JNum string
| JStr string
| JArr "json list"
| JObj "(string \<times> json) list"

text \<open>
  \<^verbatim>\<open>v.key\<close> for the keys the code reads (\<^verbatim>\<open>messages\<close>, \<^verbatim>\<open>model\<close>, \<^verbatim>\<open>role\<close>,
  \<^verbatim>\<open>content\<close>), none of which is a property of a built-in prototype: reading a property
  of \<^verbatim>\<open>undefined\<close> or \<^verbatim>\<open>null\<close> throws, an object gives its member or
  \<^verbatim>\<open>undefined\<close>, any other value gives \<^verbatim>\<open>undefined\<close>.
\<close>

fun js_get :: "json option \<Rightarrow> string \<Rightarrow> error + json option" where
  "js_get None k = Inl TypeError"
| "js_get (Some JNull) k = Inl TypeError"
| "js_get (Some (JObj kvs)) k = Inr (map_of (rev kvs) k)"
| "js_get (Some v) k = Inr None"

text \<open>
  \<^verbatim>\<open>String(v)\<close>, as a template substitution applies it. An array joins the strings of
  its elements with commas, \<^verbatim>\<open>null\<close> counting as empty. A parsed object is
  \<^verbatim>\<open>[object Object]\<close>, unless it has a member \<^verbatim>\<open>toString\<close> of its own: that member is
  not a function, \<^verbatim>\<open>valueOf\<close> does not give a primitive either, and the conversion throws.
\<close>

fun js_ToString :: "json \<Rightarrow> error + string"
  and js_ToString_elems :: "json list \<Rightarrow> error + string list" where
  "js_ToString JNull = Inr ''null''"
| "js_ToString (JBool b) = Inr (if b then ''true'' else ''false'')"
| "js_ToString (JNum n) = Inr n"
| "js_ToString (JStr s) = Inr s"
| "js_ToString (JArr xs) =
     (case js_ToString_elems xs of Inl e \<Rightarrow> Inl e | Inr ss \<Rightarrow> Inr (join '','' ss))"
| "js_ToString (JObj kvs) =
     (if ''toString'' \<in> set (map fst kvs) then Inl TypeError else Inr ''[object Object]'')"
| "js_ToString_elems [] = Inr []"
| "js_ToString_elems (x # xs) =
     (case (if x = JNull then Inr [] else js_ToString x) of
        Inl e \<Rightarrow> Inl e
      | Inr s \<Rightarrow> (case js_ToString_elems xs of Inl e \<Rightarrow> Inl e | Inr ss \<Rightarrow> Inr (s # ss)))"

definition js_String :: "json option \<Rightarrow> error + string" where
  "js_String v = (case v of None \<Rightarrow> Inr ''undefined'' | Some j \<Rightarrow> js_ToString j)"

text \<open>The expressions a substitution of the prompt template could hold, for an element
  \<open>m\<close> of a parsed array.\<close>

definition json_expr :: "json \<Rightarrow> string \<Rightarrow> error + string" where
  "json_expr m x =
     (if x = ''m.role'' then
        (case js_get (Some m) ''role'' of Inl e \<Rightarrow> Inl e | Inr v \<Rightarrow> js_String v)
      else if x = ''m.content'' then
        (case js_get (Some m) ''content'' of Inl e \<Rightarrow> Inl e | Inr v \<Rightarrow> js_String v)
      else Inl ReferenceError)"

text \<open>
  \<^verbatim>\<open>messages.map(f)\<close>: only an array has a callable \<^verbatim>\<open>map\<close>. Reading \<^verbatim>\<open>map\<close> off
  \<^verbatim>\<open>undefined\<close> or \<^verbatim>\<open>null\<close> throws, and on every other parsed value \<^verbatim>\<open>map\<close> is
  \<^verbatim>\<open>undefined\<close> or a member that is no function, so the call throws. A parsed array has
  no holes: the callback runs on every element.
\<close>

fun js_array_map :: "(json \<Rightarrow> error + 'b) \<Rightarrow> json option \<Rightarrow> error + 'b list" where
  "js_array_map f (Some (JArr xs)) = js_map f xs"
| "js_array_map f v = Inl TypeError"

definition anthropic_prompt_js :: "json option \<Rightarrow> error + string" where
  "anthropic_prompt_js messages =
     (case js_array_map (\<lambda>m. render (json_expr m) (cook_template prompt_line_raw)) messages of
        Inl e \<Rightarrow> Inl e
      | Inr lines \<Rightarrow> Inr (join [newline] lines @ newline # ''assistant:''))"

text \<open>The object literal \<^verbatim>\<open>{ content: messages.content, role: messages.role }\<close>.\<close>

record js_message =
  js_content :: "json option"
  js_role :: "json option"

definition js_wire :: "json \<Rightarrow> error + js_message" where
  "js_wire m =
     (case js_get (Some m) ''content'' of
        Inl e \<Rightarrow> Inl e
      | Inr c \<Rightarrow>
          (case js_get (Some m) ''role'' of
             Inl e \<Rightarrow> Inl e
           | Inr r \<Rightarrow> Inr \<lparr> js_content = c, js_role = r \<rparr>))"

text \<open>
  \<^verbatim>\<open>model.startsWith('claude')\<close> comes first and throws a TypeError unless \<^verbatim>\<open>model\<close>
  is a string: \<^verbatim>\<open>undefined\<close> and \<^verbatim>\<open>null\<close> have no properties, and no other parsed
  value has a callable \<^verbatim>\<open>startsWith\<close>. The arguments of a call are evaluated before the
  call is made, so an exception in \<^verbatim>\<open>messages.map\<close> leaves no upstream call.
\<close>

definition generateResponse_js ::
  "js_message upstream \<Rightarrow> ChatModel \<Rightarrow> json option \<Rightarrow> json option \<Rightarrow> js_message run" where
  "generateResponse_js upstream this messages modelv =
     (case modelv of
        Some (JStr modelId) \<Rightarrow>
          (if prefix ''claude'' modelId then
             (case anthropic_prompt_js messages of
                Inl e \<Rightarrow> ([], Inl e)
              | Inr p \<Rightarrow>
                  await_body upstream
                    (Fetch ''https://api.anthropic.com/v1/complete''
                       (claude_init this p modelId)))
           else
             (case js_array_map js_wire messages of
                Inl e \<Rightarrow> ([], Inl e)
              | Inr ms \<Rightarrow>
                  await_body upstream
                    (CreateChatCompletion (openai this)
                       \<lparr> ccr_model = or_default modelId,
                         ccr_stream = True,
                         ccr_messages = ms \<rparr>)))
      | _ \<Rightarrow> ([], Inl TypeError))"

definition ChatController_generateResponse_js ::
  "js_message upstream \<Rightarrow> ChatController \<Rightarrow> json option \<Rightarrow> json option \<Rightarrow> js_message run"
  where
  "ChatController_generateResponse_js upstream this messages selectedModel =
     generateResponse_js upstream (cc_model this) messages selectedModel"

section \<open>The route handler (app/api/chat/route.ts)\<close>

text \<open>
  \<^verbatim>\<open>const { messages, model } = await req.json()\<close>: the request is given by what
  \<^verbatim>\<open>req.json()\<close> resolves to, \<open>None\<close> when the body is not JSON and the promise rejects.
  Destructuring \<^verbatim>\<open>null\<close> throws; any other value is read property by property.
  \<^verbatim>\<open>new StreamingTextResponse(stream)\<close> is a response of status 200 around the stream.
\<close>

definition POST ::
  "js_message upstream \<Rightarrow> process_env \<Rightarrow> json option \<Rightarrow>
     js_message upstream_call list \<times> (error + Response)" where
  "POST upstream env req =
     (case req of
        None \<Rightarrow> ([], Inl SyntaxError)
      | Some payload \<Rightarrow>
          (case js_get (Some payload) ''messages'' of
             Inl e \<Rightarrow> ([], Inl e)
           | Inr messages \<Rightarrow>
               (case js_get (Some payload) ''model'' of
                  Inl e \<Rightarrow> ([], Inl e)
                | Inr modelv \<Rightarrow>
                    (case ChatController_generateResponse_js upstream
                            (ChatController_constructor env) messages modelv of
                       (calls, Inl e) \<Rightarrow> (calls, Inl e)
                     | (calls, Inr stream) \<Rightarrow>
                         (calls, Inr \<lparr> resp_status = 200, resp_body = stream \<rparr>)))))"

section \<open>Observing a run\<close>

text \<open>Provider A is the OpenAI-compatible upstream, reached through
  \<^verbatim>\<open>createChatCompletion\<close>; provider B is the Anthropic-compatible one, reached through
  \<^verbatim>\<open>fetch\<close>.\<close>

datatype provider = ProviderA | ProviderB

fun call_provider :: "'m upstream_call \<Rightarrow> provider" where
  "call_provider (Fetch url init) = ProviderB"
| "call_provider (CreateChatCompletion cfg req) = ProviderA"

fun call_model :: "'m upstream_call \<Rightarrow> string" where
  "call_model (Fetch url init) = cb_model (ri_body init)"
| "call_model (CreateChatCompletion cfg req) = ccr_model req"

fun call_messages :: "'m upstream_call \<Rightarrow> 'm list option" where
  "call_messages (Fetch url init) = None"
| "call_messages (CreateChatCompletion cfg req) = Some (ccr_messages req)"

fun call_prompt :: "'m upstream_call \<Rightarrow> string option" where
  "call_prompt (Fetch url init) = Some (cb_prompt (ri_body init))"
| "call_prompt (CreateChatCompletion cfg req) = None"

text \<open>The credential a call carries: the \<^verbatim>\<open>X-API-Key\<close> header, or the key of the
  configuration.\<close>

fun call_credential :: "'m upstream_call \<Rightarrow> string option" where
  "call_credential (Fetch url init) = map_of (ri_headers init) ''X-API-Key''"
| "call_credential (CreateChatCompletion cfg req) = apiKey cfg"

text \<open>The environment variable the constructor reads for the provider that a model
  identifier selects.\<close>

definition selected_credential :: "process_env \<Rightarrow> string \<Rightarrow> string option" where
  "selected_credential env modelId =
     (if prefix ''claude'' modelId then env ''ANTHROPIC_API_KEY'' else env ''OPEN_API_KEY'')"

text \<open>\<^verbatim>\<open>Response.ok\<close>: the success statuses.\<close>

definition is_success :: "nat \<Rightarrow> bool" where
  "is_success st = (200 \<le> st \<and> st < 300)"

text \<open>The two fields of a payload as the handler's destructuring sees them, when they have
  the shape the signature of \<^verbatim>\<open>generateResponse\<close> asks for.\<close>

definition payload_messages :: "json \<Rightarrow> json list option" where
  "payload_messages payload =
     (case js_get (Some payload) ''messages'' of
        Inr (Some (JArr ms)) \<Rightarrow> Some ms
      | _ \<Rightarrow> None)"

definition payload_model :: "json \<Rightarrow> string option" where
  "payload_model payload =
     (case js_get (Some payload) ''model'' of
        Inr (Some (JStr modelId)) \<Rightarrow> Some modelId
      | _ \<Rightarrow> None)"

text \<open>A well-typed conversation as the JSON that the client sends for it, and a well-typed
  wire message as the object built at run time.\<close>

definition Message_json :: "Message \<Rightarrow> json" where
  "Message_json m = JObj [(''role'', JStr (role_str (role m))), (''content'', JStr (content m))]"

definition Message_wire :: "Message \<Rightarrow> js_message" where
  "Message_wire m =
     \<lparr> js_content = Some (JStr (content m)), js_role = Some (JStr (role_str (role m))) \<rparr>"

fun call_wire :: "Message upstream_call \<Rightarrow> js_message upstream_call" where
  "call_wire (Fetch url init) = Fetch url init"
| "call_wire (CreateChatCompletion cfg req) =
     CreateChatCompletion cfg
       \<lparr> ccr_model = ccr_model req, ccr_stream = ccr_stream req,
         ccr_messages = map Message_wire (ccr_messages req) \<rparr>"

text \<open>The shape the data model asks of a conversation in a payload: a list whose elements
  are objects with a role, \<^verbatim>\<open>user\<close> or \<^verbatim>\<open>assistant\<close>, and a textual content.\<close>

definition is_Message_json :: "json \<Rightarrow> bool" where
  "is_Message_json m =
     ((js_get (Some m) ''role'' = Inr (Some (JStr ''user''))
        \<or> js_get (Some m) ''role'' = Inr (Some (JStr ''assistant'')))
      \<and> (case js_get (Some m) ''content'' of Inr (Some (JStr c)) \<Rightarrow> True | _ \<Rightarrow> False))"

definition is_conversation_payload :: "json \<Rightarrow> bool" where
  "is_conversation_payload payload =
     (case payload_messages payload of
        None \<Rightarrow> False
      | Some ms \<Rightarrow> list_all is_Message_json ms)"

section \<open>Concrete inputs\<close>

definition env_unset :: process_env where
  "env_unset k = None"

definition env_empty :: process_env where
  "env_empty k =
     (if k = ''ANTHROPIC_API_KEY'' \<or> k = ''OPEN_API_KEY'' then Some [] else None)"

definition reply :: Message where
  "reply = \<lparr> role = Assistant, content = ''Hi there'' \<rparr>"

definition hello :: Message where
  "hello = \<lparr> role = User, content = ''Hello'' \<rparr>"

definition hi :: Message where
  "hi = \<lparr> role = User, content = ''hi'' \<rparr>"

text \<open>An upstream that answers every call with status 200, and one that rejects every
  credential with status 401 and an error body.\<close>

definition upstream_ok :: "'m upstream" where
  "upstream_ok call = Inr \<lparr> resp_status = 200, resp_body = Some ''Hi there'' \<rparr>"

definition upstream_unauthorized :: "'m upstream" where
  "upstream_unauthorized call =
     Inr \<lparr> resp_status = 401, resp_body = Some ''authentication_error'' \<rparr>"

definition upstream_down :: "'m upstream" where
  "upstream_down call = Inl FetchError"

text \<open>Payloads: a conversation without a model, a model without a conversation, and a
  list of strings where the conversation should be.\<close>

definition payload_no_model :: json where
  "payload_no_model = JObj [(''messages'', JArr [Message_json hello])]"

definition payload_empty_model :: json where
  "payload_empty_model = JObj [(''messages'', JArr [Message_json hello]), (''model'', JStr [])]"

definition payload_no_messages :: json where
  "payload_no_messages = JObj [(''model'', JStr ''gpt-4'')]"

definition payload_strings :: json where
  "payload_strings = JObj [(''messages'', JArr [JStr ''Hello'']), (''model'', JStr ''gpt-4'')]"

section \<open>Facts about the building blocks\<close>

lemma prompt_line_render:
  "render ev (cook_template prompt_line_raw) = Inr ''${m.role}: ${m.content}''"
  by (simp add: prompt_line_raw_def backslash_def unescape_def)

lemma js_map_Inr: "js_map (\<lambda>x. Inr (g x)) xs = Inr (map g xs)"
  by (induction xs) simp_all

lemma anthropic_prompt_eq:
  "anthropic_prompt messages =
     Inr (join [newline] (map (\<lambda>m. ''${m.role}: ${m.content}'') messages)
          @ newline # ''assistant:'')"
  by (simp add: anthropic_prompt_def prompt_line_render js_map_Inr)

lemma copy_Message:
  "map (\<lambda>m. \<lparr> role = role m, content = content m \<rparr>) (ms :: Message list) = ms"
  by (induction ms) simp_all

lemma generateResponse_claude:
  "prefix ''claude'' modelId \<Longrightarrow>
   generateResponse upstream this messages modelId =
     await_body upstream
       (Fetch ''https://api.anthropic.com/v1/complete''
          (claude_init this
             (join [newline] (map (\<lambda>m. ''${m.role}: ${m.content}'') messages)
                @ newline # ''assistant:'') modelId))"
  by (simp add: generateResponse_def anthropic_prompt_eq)

lemma generateResponse_other:
  "\<not> prefix ''claude'' modelId \<Longrightarrow>
   generateResponse upstream this messages modelId =
     await_body upstream
       (CreateChatCompletion (openai this)
          \<lparr> ccr_model = or_default modelId, ccr_stream = True, ccr_messages = messages \<rparr>)"
  by (simp add: generateResponse_def copy_Message)

lemma js_get_Some:
  "js_get (Some v) k =
     (if v = JNull then Inl TypeError
      else Inr (case v of JObj kvs \<Rightarrow> map_of (rev kvs) k | _ \<Rightarrow> None))"
  by (cases v) simp_all

lemma js_wire_null: "js_wire JNull = Inl TypeError"
  by (simp add: js_wire_def)

lemma js_wire_not_null: "m \<noteq> JNull \<Longrightarrow> \<exists>w. js_wire m = Inr w"
  by (simp add: js_wire_def js_get_Some)

lemma js_map_js_wire_null: "JNull \<in> set xs \<Longrightarrow> js_map js_wire xs = Inl TypeError"
proof (induction xs)
  case Nil
  then show ?case by simp
next
  case (Cons x xs)
  show ?case
  proof (cases "x = JNull")
    case True
    then show ?thesis by (simp add: js_wire_null)
  next
    case False
    with Cons have rest: "js_map js_wire xs = Inl TypeError" by simp
    from False obtain w where "js_wire x = Inr w"
      using js_wire_not_null by blast
    with rest show ?thesis by simp
  qed
qed

lemma js_map_js_wire_ok: "JNull \<notin> set xs \<Longrightarrow> \<exists>ws. js_map js_wire xs = Inr ws"
proof (induction xs)
  case Nil
  then show ?case by simp
next
  case (Cons x xs)
  then obtain ws where ws: "js_map js_wire xs = Inr ws" by auto
  from Cons.prems have "x \<noteq> JNull" by auto
  then obtain w where "js_wire x = Inr w"
    using js_wire_not_null by blast
  with ws show ?case by simp
qed

lemma js_array_map_not_array:
  "(\<And>xs. v \<noteq> Some (JArr xs)) \<Longrightarrow> js_array_map f v = Inl TypeError"
  by (cases "(f, v)" rule: js_array_map.cases) auto

lemma anthropic_prompt_js_array:
  "anthropic_prompt_js (Some (JArr xs)) =
     Inr (join [newline] (map (\<lambda>m. ''${m.role}: ${m.content}'') xs) @ newline # ''assistant:'')"
  by (simp add: anthropic_prompt_js_def prompt_line_render js_map_Inr)

lemma anthropic_prompt_js_not_array:
  "(\<And>xs. v \<noteq> Some (JArr xs)) \<Longrightarrow> anthropic_prompt_js v = Inl TypeError"
  by (simp add: anthropic_prompt_js_def js_array_map_not_array)

lemma generateResponse_js_not_string:
  "(\<And>s. modelv \<noteq> Some (JStr s)) \<Longrightarrow>
   generateResponse_js upstream this messages modelv = ([], Inl TypeError)"
  by (auto simp: generateResponse_js_def split: option.splits json.splits)

lemma generateResponse_js_not_array:
  assumes "\<And>xs. messages \<noteq> Some (JArr xs)"
  shows "generateResponse_js upstream this messages modelv = ([], Inl TypeError)"
proof (cases "\<exists>s. modelv = Some (JStr s)")
  case True
  then obtain s where "modelv = Some (JStr s)" by blast
  with assms show ?thesis
    by (simp add: generateResponse_js_def anthropic_prompt_js_not_array js_array_map_not_array)
next
  case False
  then show ?thesis by (simp add: generateResponse_js_not_string)
qed

lemma generateResponse_js_calls:
  "fst (generateResponse_js upstream this (Some (JArr xs)) (Some (JStr modelId))) \<noteq> []
   \<longleftrightarrow> prefix ''claude'' modelId \<or> JNull \<notin> set xs"
proof (cases "prefix ''claude'' modelId")
  case True
  then show ?thesis
    by (simp add: generateResponse_js_def anthropic_prompt_js_array await_body_def)
next
  case False
  show ?thesis
  proof (cases "JNull \<in> set xs")
    case True
    with False show ?thesis
      by (simp add: generateResponse_js_def js_map_js_wire_null)
  next
    case n: False
    then obtain ws where "js_map js_wire xs = Inr ws"
      using js_map_js_wire_ok by blast
    with False n show ?thesis
      by (simp add: generateResponse_js_def await_body_def)
  qed
qed

lemma POST_calls:
  "fst (POST upstream env (Some payload)) =
     (case js_get (Some payload) ''messages'' of
        Inl e \<Rightarrow> []
      | Inr messages \<Rightarrow>
          (case js_get (Some payload) ''model'' of
             Inl e \<Rightarrow> []
           | Inr modelv \<Rightarrow>
               fst (generateResponse_js upstream (ChatModel_constructor env) messages modelv)))"
  by (simp add: POST_def ChatController_generateResponse_js_def ChatController_constructor_def
      split: sum.splits prod.splits)

lemma POST_TypeError:
  assumes "generateResponse_js upstream (ChatModel_constructor env) messages modelv = ([], Inl TypeError)"
    and "js_get (Some payload) ''messages'' = Inr messages"
    and "js_get (Some payload) ''model'' = Inr modelv"
  shows "POST upstream env (Some payload) = ([], Inl TypeError)"
  using assms
  by (simp add: POST_def ChatController_generateResponse_js_def ChatController_constructor_def)

lemma await_body_simps:
  "fst (await_body upstream call) = [call]"
  "snd (await_body upstream call) =
     (case upstream call of Inl e \<Rightarrow> Inl e | Inr response \<Rightarrow> Inr (resp_body response))"
  by (simp_all add: await_body_def)

lemma generateResponse_one_call:
  "\<exists>call. generateResponse upstream this messages modelId = await_body upstream call
      \<and> call_provider call = (if prefix ''claude'' modelId then ProviderB else ProviderA)
      \<and> call_credential call =
          (if prefix ''claude'' modelId then Some (anthropicApiKey this) else apiKey (openai this))"
proof (cases "prefix ''claude'' modelId")
  case True
  show ?thesis
    unfolding generateResponse_claude [OF True]
    by (intro exI conjI, rule refl) (simp_all add: True claude_init_def)
next
  case False
  show ?thesis
    unfolding generateResponse_other [OF False]
    by (intro exI conjI, rule refl) (simp_all add: False)
qed

lemma js_wire_Message_json: "js_wire (Message_json m) = Inr (Message_wire m)"
  by (simp add: js_wire_def Message_json_def Message_wire_def)

lemma js_map_wire_Message_json:
  "js_map js_wire (map Message_json ms) = Inr (map Message_wire ms)"
  by (induction ms) (simp_all add: js_wire_Message_json)

lemma generateResponse_js_well_typed:
  "generateResponse_js upstream this (Some (JArr (map Message_json messages))) (Some (JStr modelId))
   = (map call_wire (fst (generateResponse (upstream \<circ> call_wire) this messages modelId)),
      snd (generateResponse (upstream \<circ> call_wire) this messages modelId))"
  by (cases "prefix ''claude'' modelId")
     (simp_all add: generateResponse_js_def generateResponse_claude generateResponse_other
        anthropic_prompt_js_array js_map_wire_Message_json await_body_def comp_def)

lemma template_as_intended:
  "render (Message_expr hi) (cook_template ''${m.role}: ${m.content}'') = Inr ''user: hi''"
  by (simp add: Message_expr_def hi_def backslash_def)

section \<open>The claims\<close>

text \<open>
  C1. For every model identifier that starts with \<^verbatim>\<open>claude\<close>, \<open>generateResponse\<close> issues
  its one upstream call to provider B, with the identifier as given. For every other
  identifier, the empty string included, the call goes to provider A. The model sent
  differs from the identifier given exactly when the identifier is the empty string, and
  is then \<^verbatim>\<open>gpt-3.5-turbo\<close>.
\<close>

theorem C1_dispatch:
  "(prefix ''claude'' modelId \<longrightarrow>
      map call_provider (fst (generateResponse upstream this messages modelId)) = [ProviderB]
    \<and> map call_model (fst (generateResponse upstream this messages modelId)) = [modelId])
 \<and> (\<not> prefix ''claude'' modelId \<longrightarrow>
      map call_provider (fst (generateResponse upstream this messages modelId)) = [ProviderA]
    \<and> map call_model (fst (generateResponse upstream this messages modelId))
        = [if modelId = '''' then ''gpt-3.5-turbo'' else modelId])
 \<and> (map call_model (fst (generateResponse upstream this messages modelId)) \<noteq> [modelId]
      \<longleftrightarrow> modelId = '''')"
proof (cases "prefix ''claude'' modelId")
  case True
  then have "modelId \<noteq> ''''" by auto
  with True show ?thesis
    by (simp add: generateResponse_claude await_body_def claude_init_def)
next
  case False
  then show ?thesis
    by (simp add: generateResponse_other await_body_def or_default_def)
qed

theorem C1_dispatch_witness:
  "prefix ''claude'' ''claude-v1''
   \<and> map call_provider (fst (generateResponse upstream_ok (ChatModel_constructor env_unset) [hello] ''claude-v1'')) = [ProviderB]
   \<and> map call_model (fst (generateResponse upstream_ok (ChatModel_constructor env_unset) [hello] ''claude-v1'')) = [''claude-v1'']
   \<and> \<not> prefix ''claude'' ''''
   \<and> map call_provider (fst (generateResponse upstream_ok (ChatModel_constructor env_unset) [hello] '''')) = [ProviderA]
   \<and> map call_model (fst (generateResponse upstream_ok (ChatModel_constructor env_unset) [hello] '''')) = [''gpt-3.5-turbo'']
   \<and> \<not> prefix ''claude'' ''gpt-4''
   \<and> map call_model (fst (generateResponse upstream_ok (ChatModel_constructor env_unset) [hello] ''gpt-4'')) = [''gpt-4'']"
  using C1_dispatch [of "''claude-v1''" upstream_ok "ChatModel_constructor env_unset" "[hello]"]
    C1_dispatch [of "''''" upstream_ok "ChatModel_constructor env_unset" "[hello]"]
    C1_dispatch [of "''gpt-4''" upstream_ok "ChatModel_constructor env_unset" "[hello]"]
  by simp

text \<open>
  C2. The claim: the prompt that the provider-B branch builds is the newline-joined
  \<^verbatim>\<open>{role}: {content}\<close> of the messages followed by the cue, so that the conversation
  of the single message \<open>hi\<close> gives \<^verbatim>\<open>user: hi\<close>, a line feed and \<^verbatim>\<open>assistant:\<close>.
  The code at that input: both dollar signs of the template are escaped, nothing is
  substituted, and the prompt sent upstream is the text \<^verbatim>\<open>${m.role}: ${m.content}\<close>, a line
  feed and \<^verbatim>\<open>assistant:\<close>.
\<close>

theorem C2_prompt_not_interpolated:
  "anthropic_prompt [hi] = Inr (''${m.role}: ${m.content}'' @ newline # ''assistant:'')
   \<and> anthropic_prompt [hi] \<noteq> Inr (''user: hi'' @ newline # ''assistant:'')
   \<and> map call_prompt (fst (generateResponse upstream_ok (ChatModel_constructor env_unset) [hi] ''claude-v1''))
       = [Some (''${m.role}: ${m.content}'' @ newline # ''assistant:'')]"
  by (simp add: anthropic_prompt_eq generateResponse_claude await_body_def claude_init_def)

text \<open>
  C3, as the code has it. For every payload whose \<^verbatim>\<open>messages\<close> field is missing or is
  not an array (the payload \<^verbatim>\<open>null\<close>, which has no fields, included), the request fails
  with a TypeError and no upstream call is made. When \<^verbatim>\<open>messages\<close> is an array and
  \<^verbatim>\<open>model\<close> is a string that selects provider A, an upstream call is made exactly when
  no element of the array is \<^verbatim>\<open>null\<close>, whatever else the elements are.
\<close>

theorem C3_no_validation:
  "(payload_messages payload = None \<longrightarrow>
      POST upstream env (Some payload) = ([], Inl TypeError))
 \<and> (\<forall>modelId ms.
      payload_model payload = Some modelId \<and> \<not> prefix ''claude'' modelId
        \<and> payload_messages payload = Some ms \<longrightarrow>
      (fst (POST upstream env (Some payload)) \<noteq> [] \<longleftrightarrow> JNull \<notin> set ms))"
proof (cases "payload = JNull")
  case True
  then show ?thesis
    by (simp add: POST_def payload_messages_def payload_model_def)
next
  case False
  define messages where "messages = (case payload of JObj kvs \<Rightarrow> map_of (rev kvs) ''messages'' | _ \<Rightarrow> None)"
  define modelv where "modelv = (case payload of JObj kvs \<Rightarrow> map_of (rev kvs) ''model'' | _ \<Rightarrow> None)"
  have gm: "js_get (Some payload) ''messages'' = Inr messages"
    using False by (simp add: js_get_Some messages_def)
  have gv: "js_get (Some payload) ''model'' = Inr modelv"
    using False by (simp add: js_get_Some modelv_def)
  have calls: "fst (POST upstream env (Some payload)) =
      fst (generateResponse_js upstream (ChatModel_constructor env) messages modelv)"
    by (simp add: POST_calls gm gv)
  show ?thesis
  proof (cases "\<exists>xs. messages = Some (JArr xs)")
    case arr: True
    then obtain xs where xs: "messages = Some (JArr xs)" by blast
    then have pm: "payload_messages payload = Some xs"
      by (simp add: payload_messages_def gm)
    show ?thesis
    proof (cases "\<exists>s. modelv = Some (JStr s)")
      case True
      then obtain s where s: "modelv = Some (JStr s)" by blast
      then have "payload_model payload = Some s"
        by (simp add: payload_model_def gv)
      with pm calls xs s show ?thesis
        by (simp add: generateResponse_js_calls)
    next
      case False
      then have "generateResponse_js upstream (ChatModel_constructor env) messages modelv
          = ([], Inl TypeError)"
        by (simp add: generateResponse_js_not_string)
      moreover from False have "payload_model payload = None"
        by (auto simp: payload_model_def gv split: option.splits json.splits)
      ultimately show ?thesis using pm calls by simp
    qed
  next
    case False
    then have g: "generateResponse_js upstream (ChatModel_constructor env) messages modelv
        = ([], Inl TypeError)"
      by (simp add: generateResponse_js_not_array)
    from False have pm: "payload_messages payload = None"
      by (auto simp: payload_messages_def gm split: option.splits json.splits)
    have "POST upstream env (Some payload) = ([], Inl TypeError)"
      using g gm gv by (rule POST_TypeError)
    with pm show ?thesis by (simp split: option.splits)
  qed
qed

text \<open>
  The instance for a payload without \<^verbatim>\<open>messages\<close>, and the one for a list of strings.
\<close>

theorem C3_no_validation_witness:
  "payload_messages payload_no_messages = None
   \<and> POST upstream_ok env_unset (Some payload_no_messages) = ([], Inl TypeError)
   \<and> payload_model payload_strings = Some ''gpt-4''
   \<and> payload_messages payload_strings = Some [JStr ''Hello'']
   \<and> fst (POST upstream_ok env_unset (Some payload_strings)) \<noteq> []"
proof -
  have a: "payload_messages payload_no_messages = None"
    by (simp add: payload_messages_def payload_no_messages_def)
  have b: "payload_model payload_strings = Some ''gpt-4''"
    by (simp add: payload_model_def payload_strings_def)
  have c: "payload_messages payload_strings = Some [JStr ''Hello'']"
    by (simp add: payload_messages_def payload_strings_def)
  show ?thesis
    using a b c
      C3_no_validation [of payload_no_messages upstream_ok env_unset]
      C3_no_validation [of payload_strings upstream_ok env_unset]
    by simp
qed

text \<open>
  The claim as first stated asks that a payload whose \<^verbatim>\<open>messages\<close> is not a list of
  role/content messages be rejected with no upstream call. A list of strings is not such a
  list, and the handler sends it upstream, as one message without role or content.
\<close>

theorem C3_counterexample:
  "\<not> is_conversation_payload payload_strings
   \<and> POST upstream_ok env_unset (Some payload_strings) =
       ([CreateChatCompletion \<lparr> apiKey = None \<rparr>
           \<lparr> ccr_model = ''gpt-4'', ccr_stream = True,
             ccr_messages = [\<lparr> js_content = None, js_role = None \<rparr>] \<rparr>],
        Inr \<lparr> resp_status = 200, resp_body = Some ''Hi there'' \<rparr>)"
  by (simp add: is_conversation_payload_def payload_messages_def is_Message_json_def
      payload_strings_def POST_def ChatController_generateResponse_js_def
      ChatController_constructor_def ChatModel_constructor_def env_unset_def
      generateResponse_js_def js_wire_def await_body_def or_default_def upstream_ok_def)

text \<open>
  C4, as the code has it. \<open>generateResponse\<close> does not read the status of the response.
  It issues one upstream call; whenever that call resolves to a response, with a success
  status or not, the result is the body of that response; the result is an error only
  when the call itself rejects, and it is then that error, with no stream.
\<close>

theorem C4_status_not_read:
  "\<exists>call. fst (generateResponse upstream this messages modelId) = [call]
     \<and> (\<forall>response. upstream call = Inr response \<longrightarrow>
           snd (generateResponse upstream this messages modelId) = Inr (resp_body response))
     \<and> (\<forall>e. upstream call = Inl e \<longrightarrow>
           snd (generateResponse upstream this messages modelId) = Inl e)"
proof -
  obtain call where "generateResponse upstream this messages modelId = await_body upstream call"
    using generateResponse_one_call by blast
  then show ?thesis by (simp add: await_body_simps)
qed

theorem C4_status_not_read_witness:
  "snd (generateResponse upstream_unauthorized (ChatModel_constructor env_unset) [hello] ''gpt-4'')
     = Inr (Some ''authentication_error'')
   \<and> snd (generateResponse upstream_down (ChatModel_constructor env_unset) [hello] ''gpt-4'')
     = Inl FetchError"
  using C4_status_not_read [of upstream_unauthorized "ChatModel_constructor env_unset" "[hello]" "''gpt-4''"]
    C4_status_not_read [of upstream_down "ChatModel_constructor env_unset" "[hello]" "''gpt-4''"]
  by (auto simp: upstream_unauthorized_def upstream_down_def)

text \<open>
  The claim as first stated asks for a failure when the upstream answers with a
  non-success status. With status 401 from provider B, the result is the error body,
  returned as the stream.
\<close>

theorem C4_counterexample:
  "\<not> is_success 401
   \<and> map upstream_unauthorized
        (fst (generateResponse upstream_unauthorized (ChatModel_constructor env_unset) [hello] ''claude-v1''))
       = [Inr \<lparr> resp_status = 401, resp_body = Some ''authentication_error'' \<rparr>]
   \<and> snd (generateResponse upstream_unauthorized (ChatModel_constructor env_unset) [hello] ''claude-v1'')
       = Inr (Some ''authentication_error'')"
  by (simp add: is_success_def generateResponse_claude await_body_def upstream_unauthorized_def)

text \<open>
  C5. The claim: a payload without a \<^verbatim>\<open>model\<close> field gets the default model and goes
  to provider A. The code at the payload with one well-formed message and no model:
  \<^verbatim>\<open>model\<close> is \<^verbatim>\<open>undefined\<close>, \<^verbatim>\<open>model.startsWith\<close> throws a TypeError before the
  fallback of the provider-A branch is reached, and no upstream call is made. The same
  payload with the empty string for a model reaches the fallback.
\<close>

theorem C5_absent_model_throws:
  "payload_model payload_no_model = None
   \<and> is_conversation_payload payload_no_model
   \<and> POST upstream_ok env_unset (Some payload_no_model) = ([], Inl TypeError)
   \<and> map call_provider (fst (POST upstream_ok env_unset (Some payload_empty_model))) = [ProviderA]
   \<and> map call_model (fst (POST upstream_ok env_unset (Some payload_empty_model))) = [''gpt-3.5-turbo'']"
  by (simp add: payload_model_def payload_no_model_def payload_empty_model_def POST_def
      is_conversation_payload_def payload_messages_def is_Message_json_def
      Message_json_def hello_def ChatController_generateResponse_js_def
      generateResponse_js_def js_wire_def await_body_def or_default_def upstream_ok_def)

text \<open>
  C6. When the environment variable of the selected provider is not set or is empty,
  \<open>generateResponse\<close> on the instance built from that environment still issues its one
  upstream call, to the selected provider and with the absent or empty credential, and
  its result is only what the upstream makes of that call.
\<close>

theorem C6_no_preflight:
  assumes "selected_credential env modelId = None \<or> selected_credential env modelId = Some ''''"
  shows "\<exists>call. fst (generateResponse upstream (ChatModel_constructor env) messages modelId) = [call]
     \<and> call_provider call = (if prefix ''claude'' modelId then ProviderB else ProviderA)
     \<and> (call_credential call = None \<or> call_credential call = Some '''')
     \<and> snd (generateResponse upstream (ChatModel_constructor env) messages modelId)
         = (case upstream call of Inl e \<Rightarrow> Inl e | Inr response \<Rightarrow> Inr (resp_body response))"
proof -
  obtain call where c:
    "generateResponse upstream (ChatModel_constructor env) messages modelId = await_body upstream call"
    "call_provider call = (if prefix ''claude'' modelId then ProviderB else ProviderA)"
    "call_credential call =
       (if prefix ''claude'' modelId then Some (anthropicApiKey (ChatModel_constructor env))
        else apiKey (openai (ChatModel_constructor env)))"
    using generateResponse_one_call by blast
  have "call_credential call = None \<or> call_credential call = Some ''''"
    using assms c(3)
    by (auto simp: selected_credential_def ChatModel_constructor_def or_empty_def split: if_splits)
  with c show ?thesis by (simp add: await_body_simps)
qed

theorem C6_no_preflight_witness:
  "selected_credential env_unset ''claude-v1'' = None
   \<and> map call_credential
        (fst (generateResponse upstream_unauthorized (ChatModel_constructor env_unset) [hello] ''claude-v1''))
      = [Some '''']
   \<and> snd (generateResponse upstream_unauthorized (ChatModel_constructor env_unset) [hello] ''claude-v1'')
      = Inr (Some ''authentication_error'')
   \<and> selected_credential env_empty ''gpt-4'' = Some ''''
   \<and> map call_provider
        (fst (generateResponse upstream_unauthorized (ChatModel_constructor env_empty) [hello] ''gpt-4''))
      = [ProviderA]"
proof -
  have a: "selected_credential env_unset ''claude-v1'' = None"
    by (simp add: selected_credential_def env_unset_def)
  have b: "selected_credential env_empty ''gpt-4'' = Some ''''"
    by (simp add: selected_credential_def env_empty_def)
  show ?thesis
    using a b
      C6_no_preflight [of env_unset "''claude-v1''" upstream_unauthorized "[hello]"]
      C6_no_preflight [of env_empty "''gpt-4''" upstream_unauthorized "[hello]"]
    by (auto simp: upstream_unauthorized_def ChatModel_constructor_def env_unset_def or_empty_def
        generateResponse_claude await_body_def claude_init_def)
qed

text \<open>
  C7. The default model of the component is the first entry of the catalog that
  \<open>getAvailableModels\<close> returns; the catalog is not empty, so reading it does not fail,
  and the entry is the descriptor with id \<^verbatim>\<open>gpt-3.5-turbo\<close>.
\<close>

theorem C7_default:
  "getAvailableModels this \<noteq> []
   \<and> AIChatbot_defaultModel env = Some (hd (getAvailableModels this))
   \<and> AIChatbot_defaultModel env = Some \<lparr> id_AiModel = ''gpt-3.5-turbo'', name_AiModel = ''GPT 3.5 Turbo'' \<rparr>
   \<and> AIChatbot_initial_selectedModel env = Inr ''gpt-3.5-turbo''"
  by (simp add: AIChatbot_initial_selectedModel_def AIChatbot_defaultModel_def AIChatbot_aiModel_def
      ChatController_getAvailableModels_def getAvailableModels_def js_index_def)

text \<open>
  C8. \<open>getAvailableModels\<close> returns the same catalog, in the same order, on every
  instance, whatever the environment the instance was built from and whichever
  controller forwards the call.
\<close>

theorem C8_catalog_fixed:
  "getAvailableModels this = getAvailableModels this'
   \<and> getAvailableModels (ChatModel_constructor env) = getAvailableModels (ChatModel_constructor env')
   \<and> ChatController_getAvailableModels c = ChatController_getAvailableModels c'
   \<and> map id_AiModel (getAvailableModels this) =
       [''gpt-3.5-turbo'', ''gpt-4'', ''claude-v1'', ''claude-instant-v1'',
        ''text-davinci-003'', ''text-curie-001'']
   \<and> map name_AiModel (getAvailableModels this) =
       [''GPT 3.5 Turbo'', ''GPT-4'', ''Claude v1'', ''Claude Instant v1'', ''Davinci'', ''Curie'']"
  by (simp add: ChatController_getAvailableModels_def getAvailableModels_def)

text \<open>
  C9. The ids of the catalog are pairwise distinct.
\<close>

theorem C9_ids_distinct: "distinct (map id_AiModel (getAvailableModels this))"
  by (simp add: getAvailableModels_def)

text \<open>
  C10. For every conversation routed to provider A, the messages of the upstream request
  are the conversation itself: the same length, and at each index the same role and the
  same content.
\<close>

theorem C10_messages_unchanged:
  assumes "\<not> prefix ''claude'' modelId"
  shows "\<exists>sent.
      map call_messages (fst (generateResponse upstream this messages modelId)) = [Some sent]
    \<and> sent = messages
    \<and> length sent = length messages
    \<and> (\<forall>i < length messages.
          role (sent ! i) = role (messages ! i) \<and> content (sent ! i) = content (messages ! i))"
  using assms by (simp add: generateResponse_other await_body_def)

theorem C10_messages_unchanged_witness:
  "\<not> prefix ''claude'' ''gpt-4''
   \<and> map call_messages
        (fst (generateResponse upstream_ok (ChatModel_constructor env_unset) [hello, reply] ''gpt-4''))
      = [Some [hello, reply]]"
proof -
  have a: "\<not> prefix ''claude'' ''gpt-4''" by simp
  show ?thesis
    using a C10_messages_unchanged [OF a, of upstream_ok "ChatModel_constructor env_unset" "[hello, reply]"]
    by auto
qed

end
